theory Spec2Isabelle
  imports Main
begin

section \<open>Python values, dictionaries and exceptions\<close>

text \<open>
  The dictionaries of both agents are typed \<^verbatim>\<open>Dict[str, Any]\<close>. The values a
  dictionary can hold are modelled by a small universe: \<^verbatim>\<open>None\<close>, booleans, integers,
  strings and lists. An element of a \<^typ>\<open>string\<close> stands for one character of a
  Python \<^verbatim>\<open>str\<close>.
\<close>

datatype pyval = PyNone | PyBool bool | PyInt int | PyStr string | PyList "pyval list"

type_synonym pydict = "string \<rightharpoonup> pyval"

text \<open>
  \<open>Exception m\<close> is an instance of \<^verbatim>\<open>Exception\<close> (or of a subclass) with
  \<^verbatim>\<open>str(e) == m\<close>; \<open>BaseException m\<close> is an exception outside that hierarchy
  (\<^verbatim>\<open>KeyboardInterrupt\<close>, \<^verbatim>\<open>SystemExit\<close>), which \<^verbatim>\<open>except Exception\<close> does not catch.
\<close>

datatype exn = Exception string | BaseException string

text \<open>\<^verbatim>\<open>d.get(k, dflt)\<close>: the default is returned only when the key is absent.\<close>

definition dict_get :: "pydict \<Rightarrow> string \<Rightarrow> pyval \<Rightarrow> pyval" where
  "dict_get d k dflt = (case d k of None \<Rightarrow> dflt | Some v \<Rightarrow> v)"

text \<open>Truth value testing, as \<^verbatim>\<open>if v:\<close> and \<^verbatim>\<open>v or w\<close> do it.\<close>

fun truthy :: "pyval \<Rightarrow> bool" where
  "truthy PyNone = False"
| "truthy (PyBool b) = b"
| "truthy (PyInt n) = (n \<noteq> 0)"
| "truthy (PyStr s) = (s \<noteq> [])"
| "truthy (PyList l) = (l \<noteq> [])"

fun type_name :: "pyval \<Rightarrow> string" where
  "type_name PyNone = ''NoneType''"
| "type_name (PyBool b) = ''bool''"
| "type_name (PyInt n) = ''int''"
| "type_name (PyStr s) = ''str''"
| "type_name (PyList l) = ''list''"

text \<open>
  The slice \<^verbatim>\<open>v[:n]\<close>: the first \<open>n\<close> elements of a string or a list, a
  \<^verbatim>\<open>TypeError\<close> for a value that is not subscriptable.
\<close>

fun slice_to :: "pyval \<Rightarrow> nat \<Rightarrow> exn + pyval" where
  "slice_to (PyStr s) n = Inr (PyStr (take n s))"
| "slice_to (PyList l) n = Inr (PyList (take n l))"
| "slice_to v n =
     Inl (Exception (CHR 0x27 # type_name v @ CHR 0x27 # '' object is not subscriptable''))"

text \<open>
  \<^verbatim>\<open>a or b\<close> for an \<^verbatim>\<open>Optional[int]\<close> on the left: \<^verbatim>\<open>None\<close> and \<^verbatim>\<open>0\<close> are falsy,
  every other integer is truthy.
\<close>

definition py_or :: "int option \<Rightarrow> int \<Rightarrow> int" where
  "py_or a b = (case a of None \<Rightarrow> b | Some n \<Rightarrow> if n = 0 then b else n)"

section \<open>The agents and the world they act on\<close>

text \<open>
  Both classes keep a reference to an optional knowledge graph and a name;
  \<^verbatim>\<open>SearchAgent\<close> adds \<^verbatim>\<open>max_results\<close>. The field \<open>knowledge_graph\<close> says whether a
  (truthy) knowledge graph is attached; what the graph has received is part of the world.
\<close>

record base_agent =
  knowledge_graph :: bool
  name :: string

record search_agent = base_agent +
  max_results :: int

definition SearchAgent :: "bool \<Rightarrow> search_agent" where
  "SearchAgent kg = \<lparr>knowledge_graph = kg, name = ''SearchAgent'', max_results = 5\<rparr>"

definition SummarizerAgent :: "bool \<Rightarrow> base_agent" where
  "SummarizerAgent kg = \<lparr>knowledge_graph = kg, name = ''SummarizerAgent''\<rparr>"

text \<open>
  One call of \<^verbatim>\<open>log_agent_action\<close>. The timestamp argument is the wall clock's reading
  and is left out of the entry. The knowledge graph is taken to accept every entry without
  raising.
\<close>

record log_entry =
  agent :: string
  action :: string
  data :: pydict

text \<open>
  The world: the entries the knowledge graph has received (oldest first), the lines
  printed, and the arguments of every \<^verbatim>\<open>ddgs.text\<close> call made.
\<close>

record world =
  kg_log :: "log_entry list"
  stdout :: "string list"
  ddgs_calls :: "(string \<times> int) list"

definition log_action :: "'a base_agent_scheme \<Rightarrow> string \<Rightarrow> pydict \<Rightarrow> world \<Rightarrow> world" where
  "log_action self act d w =
     (if knowledge_graph self
      then w\<lparr>kg_log := kg_log w @ [\<lparr>agent = name self, action = act, data = d\<rparr>]\<rparr>
      else w)"

section \<open>The summarizer\<close>

text \<open>The result of \<^verbatim>\<open>summarize\<close>: a dictionary literal with four fixed keys.\<close>

record summary =
  key_findings :: "pydict list"
  source_count :: int
  sources :: "pydict list"
  synthesis_method :: string

text \<open>The first loop of \<^verbatim>\<open>_synthesize_information\<close>: \<^verbatim>\<open>all_results.extend(result_list)\<close>.\<close>

fun extend_all :: "'a list \<Rightarrow> 'a list list \<Rightarrow> 'a list" where
  "extend_all all_results [] = all_results"
| "extend_all all_results (result_list # rest) = extend_all (all_results @ result_list) rest"

text \<open>
  The second loop, over \<^verbatim>\<open>all_results[:10]\<close>, with its two accumulators
  \<^verbatim>\<open>key_findings\<close> and \<^verbatim>\<open>sources\<close>. The slice of
  the snippet can raise, which ends the loop.
\<close>

fun synthesize_loop ::
  "pydict list \<Rightarrow> pydict list \<Rightarrow> pydict list \<Rightarrow> exn + (pydict list \<times> pydict list)" where
  "synthesize_loop [] findings srcs = Inr (findings, srcs)"
| "synthesize_loop (result # rest) findings srcs =
     (case slice_to (dict_get result ''snippet'' (PyStr '''')) 200 of
        Inl e \<Rightarrow> Inl e
      | Inr point \<Rightarrow>
          let findings' = findings @
                [[''point'' \<mapsto> point,
                  ''source'' \<mapsto> dict_get result ''title'' (PyStr ''Unknown''),
                  ''url'' \<mapsto> dict_get result ''url'' (PyStr '''')]];
              srcs' =
                (if truthy (dict_get result ''url'' PyNone)
                 then srcs @
                   [[''title'' \<mapsto> dict_get result ''title'' (PyStr ''Unknown''),
                     ''url'' \<mapsto> dict_get result ''url'' (PyStr '''')]]
                 else srcs)
          in synthesize_loop rest findings' srcs')"

definition synthesize_information :: "pydict list list \<Rightarrow> exn + summary" where
  "synthesize_information search_results =
     (let all_results = extend_all [] search_results in
      case synthesize_loop (take 10 all_results) [] [] of
        Inl e \<Rightarrow> Inl e
      | Inr (findings, srcs) \<Rightarrow>
          Inr \<lparr>key_findings = findings,
               source_count = int (length all_results),
               sources = take 15 srcs,
               synthesis_method = ''heuristic_extraction''\<rparr>)"

definition summarize ::
  "base_agent \<Rightarrow> pydict list list \<Rightarrow> world \<Rightarrow> (exn + summary) \<times> world" where
  "summarize self search_results w =
     (let w1 = log_action self ''summarization_started''
                 [''source_count'' \<mapsto> PyInt (int (length search_results))] w
      in case synthesize_information search_results of
           Inl e \<Rightarrow> (Inl e, w1)
         | Inr summary \<Rightarrow>
             (Inr summary,
              log_action self ''summarization_completed''
                [''source_count'' \<mapsto> PyInt (int (length search_results)),
                 ''key_points'' \<mapsto> PyInt (int (length (key_findings summary)))] w1))"

section \<open>The search agent\<close>

text \<open>
  The provider is an opaque collaborator. What \<^verbatim>\<open>ddgs.text(query, max_results=n)\<close>
  hands back is consumed by a \<^verbatim>\<open>for\<close> loop: a finite run of records that then ends
  (\<open>Stop\<close>) or raises (\<open>Raise\<close>). A \<open>Raise\<close> at the head also stands for
  \<^verbatim>\<open>text\<close> itself raising, and a \<open>Raise\<close> in place of a record for a record on
  which \<^verbatim>\<open>result.get\<close> raises.
\<close>

datatype 'r iter = Stop | Yield 'r "'r iter" | Raise exn

text \<open>
  \<open>ddgs_enter\<close>: the exception \<^verbatim>\<open>DDGS()\<close> or entering the \<^verbatim>\<open>with\<close> block
  raises, if any; \<open>ddgs_text\<close>: the provider's answer to a query and a limit. Leaving
  the \<^verbatim>\<open>with\<close> block neither raises nor suppresses an exception.
\<close>

record ddgs =
  ddgs_enter :: "exn option"
  ddgs_text :: "string \<Rightarrow> int \<Rightarrow> pydict iter"

text \<open>
  The body of \<^verbatim>\<open>for idx, result in enumerate(search_results)\<close>. It returns the
  exception that ended the loop, if one did, and the results appended so far. The pause
  \<^verbatim>\<open>time.sleep(0.5)\<close> after each record has no effect on any value.
\<close>

fun search_loop :: "pydict iter \<Rightarrow> nat \<Rightarrow> pydict list \<Rightarrow> exn option \<times> pydict list" where
  "search_loop Stop idx results = (None, results)"
| "search_loop (Raise e) idx results = (Some e, results)"
| "search_loop (Yield result rest) idx results =
     search_loop rest (idx + 1)
       (results @
          [[''rank'' \<mapsto> PyInt (int idx + 1),
            ''title'' \<mapsto> dict_get result ''title'' (PyStr ''No title''),
            ''snippet'' \<mapsto> dict_get result ''body'' (PyStr ''No description''),
            ''url'' \<mapsto> dict_get result ''href'' (PyStr ''''),
            ''source'' \<mapsto> PyStr ''duckduckgo'']])"

text \<open>
  \<^verbatim>\<open>_execute_search\<close>: the \<^verbatim>\<open>try\<close> block covers the session, the call and the
  loop; \<^verbatim>\<open>except Exception\<close> prints and falls through to \<^verbatim>\<open>return results\<close>.
\<close>

definition execute_search ::
  "search_agent \<Rightarrow> ddgs \<Rightarrow> string \<Rightarrow> int \<Rightarrow> world \<Rightarrow> (exn + pydict list) \<times> world" where
  "execute_search self provider query limit w =
     (let results = [];
          (raised, results', w') =
            (case ddgs_enter provider of
               Some e \<Rightarrow> (Some e, results, w)
             | None \<Rightarrow>
                 (let w1 = w\<lparr>ddgs_calls := ddgs_calls w @ [(query, limit)]\<rparr>;
                      (r, rs) = search_loop (ddgs_text provider query limit) 0 results
                  in (r, rs, w1)))
      in case raised of
           None \<Rightarrow> (Inr results', w')
         | Some (Exception m) \<Rightarrow>
             (Inr results', w'\<lparr>stdout := stdout w' @ [''Search error: '' @ m]\<rparr>)
         | Some (BaseException m) \<Rightarrow> (Inl (BaseException m), w'))"

text \<open>
  \<^verbatim>\<open>search\<close>; the argument \<open>limit\<close> is the caller's \<^verbatim>\<open>max_results\<close>, \<open>None\<close>
  when omitted. The three cases after \<^verbatim>\<open>_execute_search\<close> are the \<^verbatim>\<open>try\<close> body
  completing, \<^verbatim>\<open>except Exception\<close>, and an exception that clause does not catch.
\<close>

definition search ::
  "search_agent \<Rightarrow> ddgs \<Rightarrow> string \<Rightarrow> int option \<Rightarrow> world \<Rightarrow> (exn + pydict list) \<times> world" where
  "search self provider query limit w =
     (let limit' = py_or limit (max_results self);
          w1 = log_action self ''search_started'' [''query'' \<mapsto> PyStr query] w
      in case execute_search self provider query limit' w1 of
           (Inr results, w2) \<Rightarrow>
             (Inr results,
              log_action self ''search_completed''
                [''query'' \<mapsto> PyStr query,
                 ''result_count'' \<mapsto> PyInt (int (length results)),
                 ''success'' \<mapsto> PyBool True] w2)
         | (Inl (Exception m), w2) \<Rightarrow>
             (Inr [],
              log_action self ''search_failed''
                [''query'' \<mapsto> PyStr query, ''error'' \<mapsto> PyStr m] w2)
         | (Inl (BaseException m), w2) \<Rightarrow> (Inl (BaseException m), w2))"

section \<open>Functions used to state the properties\<close>

text \<open>What the summarizer reads of a record, and what it builds from one.\<close>

definition snippet_ok :: "pydict \<Rightarrow> bool" where
  "snippet_ok r =
     (case dict_get r ''snippet'' (PyStr '''') of
        PyStr s \<Rightarrow> True | PyList l \<Rightarrow> True | _ \<Rightarrow> False)"

fun first_200 :: "pyval \<Rightarrow> pyval" where
  "first_200 (PyStr s) = PyStr (take 200 s)"
| "first_200 (PyList l) = PyList (take 200 l)"
| "first_200 v = v"

definition finding :: "pydict \<Rightarrow> pydict" where
  "finding r =
     [''point'' \<mapsto> first_200 (dict_get r ''snippet'' (PyStr '''')),
      ''source'' \<mapsto> dict_get r ''title'' (PyStr ''Unknown''),
      ''url'' \<mapsto> dict_get r ''url'' (PyStr '''')]"

definition source_ref :: "pydict \<Rightarrow> pydict" where
  "source_ref r =
     [''title'' \<mapsto> dict_get r ''title'' (PyStr ''Unknown''),
      ''url'' \<mapsto> dict_get r ''url'' (PyStr '''')]"

definition has_url :: "pydict \<Rightarrow> bool" where
  "has_url r = truthy (dict_get r ''url'' PyNone)"

text \<open>
  What a provider does on one call: the records its iterator yields before it stops or
  raises, and the exception raised, if any (by the session or by the iterator).
\<close>

fun yielded :: "'r iter \<Rightarrow> 'r list" where
  "yielded Stop = []"
| "yielded (Raise e) = []"
| "yielded (Yield r rest) = r # yielded rest"

fun ending :: "'r iter \<Rightarrow> exn option" where
  "ending Stop = None"
| "ending (Raise e) = Some e"
| "ending (Yield r rest) = ending rest"

fun iter_of :: "'r list \<Rightarrow> 'r iter" where
  "iter_of [] = Stop"
| "iter_of (r # rs) = Yield r (iter_of rs)"

definition provider_yielded :: "ddgs \<Rightarrow> string \<Rightarrow> int \<Rightarrow> pydict list" where
  "provider_yielded provider query limit =
     (case ddgs_enter provider of
        Some e \<Rightarrow> []
      | None \<Rightarrow> yielded (ddgs_text provider query limit))"

definition provider_raised :: "ddgs \<Rightarrow> string \<Rightarrow> int \<Rightarrow> exn option" where
  "provider_raised provider query limit =
     (case ddgs_enter provider of
        Some e \<Rightarrow> Some e
      | None \<Rightarrow> ending (ddgs_text provider query limit))"

text \<open>
  Nothing was raised, or what was raised is an instance of \<^verbatim>\<open>Exception\<close>, which the
  handlers catch.
\<close>

fun nothing_uncaught :: "exn option \<Rightarrow> bool" where
  "nothing_uncaught (Some (BaseException m)) = False"
| "nothing_uncaught (Some (Exception m)) = True"
| "nothing_uncaught None = True"

text \<open>The result built from the record at position \<open>idx\<close> of the response.\<close>

definition normalised :: "nat \<Rightarrow> pydict \<Rightarrow> pydict" where
  "normalised idx result =
     [''rank'' \<mapsto> PyInt (int idx + 1),
      ''title'' \<mapsto> dict_get result ''title'' (PyStr ''No title''),
      ''snippet'' \<mapsto> dict_get result ''body'' (PyStr ''No description''),
      ''url'' \<mapsto> dict_get result ''href'' (PyStr ''''),
      ''source'' \<mapsto> PyStr ''duckduckgo'']"

fun ranked :: "nat \<Rightarrow> pydict list \<Rightarrow> pydict list" where
  "ranked idx [] = []"
| "ranked idx (r # rs) = normalised idx r # ranked (Suc idx) rs"

definition ranks :: "pydict list \<Rightarrow> pyval option list" where
  "ranks rs = map (\<lambda>r. r ''rank'') rs"

definition actions :: "world \<Rightarrow> string list" where
  "actions w = map action (kg_log w)"

section \<open>Concrete inputs\<close>

definition w0 :: world where
  "w0 = \<lparr>kg_log = [], stdout = [], ddgs_calls = []\<rparr>"

definition result_record :: "string \<Rightarrow> string \<Rightarrow> string \<Rightarrow> pydict" where
  "result_record t s u = [''title'' \<mapsto> PyStr t, ''snippet'' \<mapsto> PyStr s, ''url'' \<mapsto> PyStr u]"

definition provider_record :: "string \<Rightarrow> string \<Rightarrow> string \<Rightarrow> pydict" where
  "provider_record t b h = [''title'' \<mapsto> PyStr t, ''body'' \<mapsto> PyStr b, ''href'' \<mapsto> PyStr h]"

text \<open>Twelve records in two batches, the first seven with a url.\<close>

definition twelve_records :: "pydict list list" where
  "twelve_records =
     [replicate 7 (result_record ''T'' ''some text'' ''http://t''),
      replicate 5 (result_record ''N'' ''other text'' '''')]"

text \<open>Twelve records in one batch, each with a url.\<close>

definition twelve_with_url :: "pydict list list" where
  "twelve_with_url = [replicate 12 (result_record ''T'' ''some text'' ''http://t'')]"

text \<open>A provider that raises on every \<^verbatim>\<open>text\<close> call.\<close>

definition failing_provider :: ddgs where
  "failing_provider =
     \<lparr>ddgs_enter = None, ddgs_text = (\<lambda>q n. Raise (Exception ''network unreachable''))\<rparr>"

text \<open>A provider whose iterator yields one record and then raises.\<close>

definition breaking_provider :: ddgs where
  "breaking_provider =
     \<lparr>ddgs_enter = None,
      ddgs_text = (\<lambda>q n. Yield (provider_record ''A'' ''a'' ''http://a'')
                            (Raise (Exception ''connection reset'')))\<rparr>"

text \<open>A provider that yields seven records whatever limit it is given.\<close>

definition seven_records :: "pydict list" where
  "seven_records = replicate 7 (provider_record ''A'' ''a'' ''http://a'')"

definition over_yielding_provider :: ddgs where
  "over_yielding_provider = \<lparr>ddgs_enter = None, ddgs_text = (\<lambda>q n. iter_of seven_records)\<rparr>"

text \<open>A provider that has seven records and yields no more than the limit it is given.\<close>

definition honouring_provider :: ddgs where
  "honouring_provider =
     \<lparr>ddgs_enter = None, ddgs_text = (\<lambda>q n. iter_of (take (nat n) seven_records))\<rparr>"

text \<open>
  A provider whose only record has an empty title, a \<^verbatim>\<open>None\<close> body and no
  \<^verbatim>\<open>href\<close> key.
\<close>

definition sparse_record :: pydict where
  "sparse_record = [''title'' \<mapsto> PyStr '''', ''body'' \<mapsto> PyNone]"

definition sparse_provider :: ddgs where
  "sparse_provider = \<lparr>ddgs_enter = None, ddgs_text = (\<lambda>q n. iter_of [sparse_record])\<rparr>"

section \<open>The summarizer's loops\<close>

lemma extend_all_concat: "extend_all acc bs = acc @ concat bs"
  by (induction bs arbitrary: acc) simp_all

lemma slice_to_ok: "snippet_ok r \<Longrightarrow>
   slice_to (dict_get r ''snippet'' (PyStr '''')) 200 = Inr (first_200 (dict_get r ''snippet'' (PyStr '''')))"
  by (cases "dict_get r ''snippet'' (PyStr '''')") (simp_all add: snippet_ok_def)

lemma slice_to_bad: "\<not> snippet_ok r \<Longrightarrow> isl (slice_to (dict_get r ''snippet'' (PyStr '''')) 200)"
  by (cases "dict_get r ''snippet'' (PyStr '''')") (simp_all add: snippet_ok_def)

lemma synthesize_loop_step:
  "snippet_ok r \<Longrightarrow>
   synthesize_loop (r # rs) kf srcs =
     synthesize_loop rs (kf @ [finding r]) (if has_url r then srcs @ [source_ref r] else srcs)"
  by (simp add: slice_to_ok finding_def source_ref_def has_url_def Let_def)

lemma synthesize_loop_ok:
  "list_all snippet_ok rs \<Longrightarrow>
   synthesize_loop rs kf srcs = Inr (kf @ map finding rs, srcs @ map source_ref (filter has_url rs))"
proof (induction rs arbitrary: kf srcs)
  case Nil
  then show ?case by simp
next
  case (Cons r rs)
  then show ?case
    by (simp add: synthesize_loop_step del: synthesize_loop.simps)
qed

lemma synthesize_loop_bad:
  "\<not> list_all snippet_ok rs \<Longrightarrow> isl (synthesize_loop rs kf srcs)"
proof (induction rs arbitrary: kf srcs)
  case Nil
  then show ?case by simp
next
  case (Cons r rs)
  show ?case
  proof (cases "snippet_ok r")
    case True
    with Cons show ?thesis by (simp add: synthesize_loop_step del: synthesize_loop.simps)
  next
    case False
    from slice_to_bad [OF False] show ?thesis by (auto split: sum.splits)
  qed
qed

lemma synthesize_information_ok:
  "list_all snippet_ok (take 10 (concat bs)) \<Longrightarrow>
   synthesize_information bs =
     Inr \<lparr>key_findings = map finding (take 10 (concat bs)),
          source_count = int (length (concat bs)),
          sources = take 15 (map source_ref (filter has_url (take 10 (concat bs)))),
          synthesis_method = ''heuristic_extraction''\<rparr>"
  by (simp add: synthesize_information_def extend_all_concat synthesize_loop_ok Let_def)

lemma synthesize_information_bad:
  "\<not> list_all snippet_ok (take 10 (concat bs)) \<Longrightarrow> isl (synthesize_information bs)"
  using synthesize_loop_bad [of "take 10 (concat bs)" "[]" "[]"]
  by (auto simp add: synthesize_information_def extend_all_concat Let_def split: sum.splits)

lemma summarize_result: "fst (summarize self bs w) = synthesize_information bs"
  by (simp add: summarize_def Let_def split: sum.splits)

lemma summarize_returns:
  "list_all snippet_ok (take 10 (concat bs)) \<Longrightarrow> \<exists>s. fst (summarize self bs w) = Inr s"
  by (simp add: summarize_result synthesize_information_ok)

lemma summarize_Inr:
  assumes "fst (summarize self bs w) = Inr s"
  shows "list_all snippet_ok (take 10 (concat bs))"
    and "s = \<lparr>key_findings = map finding (take 10 (concat bs)),
          source_count = int (length (concat bs)),
          sources = take 15 (map source_ref (filter has_url (take 10 (concat bs)))),
          synthesis_method = ''heuristic_extraction''\<rparr>"
proof -
  from assms have eq: "synthesize_information bs = Inr s" by (simp add: summarize_result)
  show ok: "list_all snippet_ok (take 10 (concat bs))"
  proof (rule ccontr)
    assume "\<not> ?thesis"
    from synthesize_information_bad [OF this] eq show False by simp
  qed
  from synthesize_information_ok [OF ok] eq show "s = \<lparr>key_findings = map finding (take 10 (concat bs)),
          source_count = int (length (concat bs)),
          sources = take 15 (map source_ref (filter has_url (take 10 (concat bs)))),
          synthesis_method = ''heuristic_extraction''\<rparr>" by simp
qed

section \<open>The search loop\<close>

lemma search_loop_step:
  "search_loop (Yield r rest) idx results = search_loop rest (Suc idx) (results @ [normalised idx r])"
  by (simp add: normalised_def)

lemma search_loop_eq:
  "search_loop it idx results = (ending it, results @ ranked idx (yielded it))"
proof (induction it arbitrary: idx results)
  case (Yield r rest)
  then show ?case by (simp add: search_loop_step del: search_loop.simps)
qed simp_all

lemma length_ranked: "length (ranked idx rs) = length rs"
  by (induction rs arbitrary: idx) simp_all

lemma nth_ranked: "i < length rs \<Longrightarrow> ranked idx rs ! i = normalised (idx + i) (rs ! i)"
proof (induction rs arbitrary: idx i)
  case (Cons r rs)
  then show ?case by (cases i) simp_all
qed simp

lemma ranks_ranked:
  "ranks (ranked idx rs) = map (\<lambda>i. Some (PyInt (int i))) [Suc idx..<Suc idx + length rs]"
proof (induction rs arbitrary: idx)
  case Nil
  then show ?case by (simp add: ranks_def)
next
  case (Cons r rs)
  have "[Suc idx..<Suc idx + length (r # rs)] = Suc idx # [Suc (Suc idx)..<Suc (Suc idx) + length rs]"
    by (subst upt_rec) simp
  with Cons [of "Suc idx"] show ?case
    by (simp add: ranks_def normalised_def)
qed

lemma execute_search_eq:
  "execute_search self p q n w =
     (case provider_raised p q n of
        Some (BaseException m) \<Rightarrow> Inl (BaseException m)
      | _ \<Rightarrow> Inr (ranked 0 (provider_yielded p q n)),
      (case ddgs_enter p of None \<Rightarrow> w\<lparr>ddgs_calls := ddgs_calls w @ [(q, n)]\<rparr> | Some e \<Rightarrow> w)
        \<lparr>stdout := stdout w @ (case provider_raised p q n of Some (Exception m) \<Rightarrow> [''Search error: '' @ m] | _ \<Rightarrow> [])\<rparr>)"
  by (simp add: execute_search_def provider_raised_def provider_yielded_def search_loop_eq Let_def
      split: option.splits exn.splits)

lemma search_fst:
  "fst (search self p q lim w) =
     (case provider_raised p q (py_or lim (max_results self)) of
        Some (BaseException m) \<Rightarrow> Inl (BaseException m)
      | _ \<Rightarrow> Inr (ranked 0 (provider_yielded p q (py_or lim (max_results self)))))"
  by (simp add: search_def execute_search_eq Let_def split: option.splits exn.splits)

lemma search_snd:
  "snd (search self p q lim w) =
     (let n = py_or lim (max_results self);
          w1 = log_action self ''search_started'' [''query'' \<mapsto> PyStr q] w;
          w2 = (case ddgs_enter p of None \<Rightarrow> w1\<lparr>ddgs_calls := ddgs_calls w1 @ [(q, n)]\<rparr> | Some e \<Rightarrow> w1)
        \<lparr>stdout := stdout w1 @ (case provider_raised p q n of Some (Exception m) \<Rightarrow> [''Search error: '' @ m] | _ \<Rightarrow> [])\<rparr>
      in case provider_raised p q n of
        Some (BaseException m) \<Rightarrow> w2
      | _ \<Rightarrow> log_action self ''search_completed''
                [''query'' \<mapsto> PyStr q,
                 ''result_count'' \<mapsto> PyInt (int (length (provider_yielded p q n))),
                 ''success'' \<mapsto> PyBool True] w2)"
  by (simp add: search_def execute_search_eq Let_def length_ranked split: option.splits exn.splits)

lemma search_Inr:
  "fst (search self p q lim w) = Inr rs \<Longrightarrow>
   rs = ranked 0 (provider_yielded p q (py_or lim (max_results self)))"
  by (simp add: search_fst split: option.splits exn.splits)

lemma search_returns:
  "nothing_uncaught (provider_raised p q (py_or lim (max_results self))) \<Longrightarrow>
   fst (search self p q lim w) = Inr (ranked 0 (provider_yielded p q (py_or lim (max_results self))))"
  by (cases "provider_raised p q (py_or lim (max_results self))" rule: nothing_uncaught.cases)
     (simp_all add: search_fst)

lemma search_ddgs_calls:
  "ddgs_enter p = None \<Longrightarrow>
   ddgs_calls (snd (search self p q lim w)) = ddgs_calls w @ [(q, py_or lim (max_results self))]"
  by (simp add: search_snd log_action_def Let_def split: option.splits exn.splits)

lemma yielded_iter_of: "yielded (iter_of rs) = rs"
  by (induction rs) simp_all

lemma ending_iter_of: "ending (iter_of rs) = None"
  by (induction rs) simp_all

section \<open>Facts about the concrete inputs\<close>

lemma twelve_records_ok: "list_all snippet_ok (take 10 (concat twelve_records))"
  by (simp add: twelve_records_def result_record_def snippet_ok_def dict_get_def list_all_iff)

lemma twelve_with_url_ok: "list_all snippet_ok (take 10 (concat twelve_with_url))"
  by (simp add: twelve_with_url_def result_record_def snippet_ok_def dict_get_def list_all_iff)

lemma twelve_with_url_has_url: "filter has_url (take 10 (concat twelve_with_url)) = take 10 (concat twelve_with_url)"
  by (simp add: twelve_with_url_def result_record_def has_url_def dict_get_def)

lemma twelve_concat:
  "concat twelve_records =
     replicate 7 (result_record ''T'' ''some text'' ''http://t'') @
     replicate 5 (result_record ''N'' ''other text'' '''')"
  by (simp add: twelve_records_def)

lemma over_yielding_search:
  "n \<noteq> 0 \<Longrightarrow> fst (search (SearchAgent kg) over_yielding_provider q (Some n) w) = Inr (ranked 0 seven_records)"
  by (simp add: search_fst provider_raised_def provider_yielded_def over_yielding_provider_def
      yielded_iter_of ending_iter_of)

lemma honouring_search:
  "n \<noteq> 0 \<Longrightarrow> fst (search (SearchAgent kg) honouring_provider q (Some n) w) =
     Inr (ranked 0 (take (nat n) seven_records))"
  by (simp add: search_fst provider_raised_def provider_yielded_def honouring_provider_def
      yielded_iter_of ending_iter_of py_or_def)

section \<open>What a search call logs\<close>

lemma search_actions:
  "actions (snd (search self p q lim w)) =
     actions w @
     (if knowledge_graph self
      then (case provider_raised p q (py_or lim (max_results self)) of
              Some (BaseException m) \<Rightarrow> [''search_started'']
            | _ \<Rightarrow> [''search_started'', ''search_completed''])
      else [])"
  by (simp add: search_snd actions_def log_action_def Let_def split: option.splits exn.splits)

section \<open>Properties of the summarizer\<close>

text \<open>
  Claim C2. Whenever \<^verbatim>\<open>summarize\<close> returns a summary, it has at most 10 key findings
  and at most 15 sources, and its \<^verbatim>\<open>source_count\<close> is the total number of records in
  all input batches, not the size of the capped slice. It does return a summary whenever
  the snippets of the first ten flattened records are text (or absent).
\<close>

theorem summarize_bounds:
  "(\<forall>s. fst (summarize self bs w) = Inr s \<longrightarrow>
      length (key_findings s) \<le> 10 \<and> length (sources s) \<le> 15 \<and>
      source_count s = int (sum_list (map length bs))) \<and>
   (list_all snippet_ok (take 10 (concat bs)) \<longrightarrow> (\<exists>s. fst (summarize self bs w) = Inr s))"
proof (intro conjI allI impI)
  fix s
  assume r: "fst (summarize self bs w) = Inr s"
  note eq = summarize_Inr(2) [OF r]
  show "length (key_findings s) \<le> 10" by (subst eq) simp
  show "length (sources s) \<le> 15" by (subst eq) simp
  show "source_count s = int (sum_list (map length bs))"
    by (subst eq) (simp add: length_concat)
next
  assume "list_all snippet_ok (take 10 (concat bs))"
  then show "\<exists>s. fst (summarize self bs w) = Inr s" by (rule summarize_returns)
qed

theorem summarize_bounds_witness:
  "list_all snippet_ok (take 10 (concat twelve_records)) \<and>
   sum_list (map length twelve_records) = 12 \<and>
   (\<exists>s. fst (summarize (SummarizerAgent True) twelve_records w0) = Inr s \<and>
        length (key_findings s) \<le> 10 \<and> length (sources s) \<le> 15 \<and> source_count s = 12)"
proof -
  note th = summarize_bounds [of "SummarizerAgent True" twelve_records w0]
  have n: "sum_list (map length twelve_records) = 12"
    by (simp add: twelve_records_def)
  from th twelve_records_ok obtain s where
    s: "fst (summarize (SummarizerAgent True) twelve_records w0) = Inr s" by blast
  with th have "length (key_findings s) \<le> 10 \<and> length (sources s) \<le> 15 \<and>
      source_count s = int (sum_list (map length twelve_records))" by blast
  with n have "length (key_findings s) \<le> 10 \<and> length (sources s) \<le> 15 \<and> source_count s = 12"
    by simp
  with s twelve_records_ok n show ?thesis by blast
qed

text \<open>
  Claim C6. For the two-record batch with titles A and B, a 300-character snippet and the
  snippet \<^verbatim>\<open>short\<close>, urls \<^verbatim>\<open>u1\<close> and the empty string: \<^verbatim>\<open>source_count\<close> is 2, the
  first finding's point is the first 200 characters of the long snippet and nothing more,
  the second finding's point is \<^verbatim>\<open>short\<close>, and the only source is A with \<^verbatim>\<open>u1\<close>.
\<close>

theorem summarize_scenario:
  "length snip = 300 \<Longrightarrow>
   fst (summarize self [[result_record ''A'' snip ''u1'', result_record ''B'' ''short'' '''']] w) =
     Inr \<lparr>key_findings =
            [[''point'' \<mapsto> PyStr (take 200 snip), ''source'' \<mapsto> PyStr ''A'', ''url'' \<mapsto> PyStr ''u1''],
             [''point'' \<mapsto> PyStr ''short'', ''source'' \<mapsto> PyStr ''B'', ''url'' \<mapsto> PyStr '''']],
          source_count = 2,
          sources = [[''title'' \<mapsto> PyStr ''A'', ''url'' \<mapsto> PyStr ''u1'']],
          synthesis_method = ''heuristic_extraction''\<rparr> \<and>
   length (take 200 snip) = 200"
  by (simp add: summarize_result synthesize_information_def result_record_def dict_get_def Let_def)

theorem summarize_scenario_witness:
  "length (replicate 300 (CHR ''x'')) = 300 \<and>
   fst (summarize (SummarizerAgent True)
          [[result_record ''A'' (replicate 300 (CHR ''x'')) ''u1'', result_record ''B'' ''short'' '''']] w0) =
     Inr \<lparr>key_findings =
            [[''point'' \<mapsto> PyStr (replicate 200 (CHR ''x'')), ''source'' \<mapsto> PyStr ''A'', ''url'' \<mapsto> PyStr ''u1''],
             [''point'' \<mapsto> PyStr ''short'', ''source'' \<mapsto> PyStr ''B'', ''url'' \<mapsto> PyStr '''']],
          source_count = 2,
          sources = [[''title'' \<mapsto> PyStr ''A'', ''url'' \<mapsto> PyStr ''u1'']],
          synthesis_method = ''heuristic_extraction''\<rparr>"
proof -
  have l: "length (replicate 300 (CHR ''x'')) = 300" by simp
  from summarize_scenario [OF l, of "SummarizerAgent True" w0] l show ?thesis
    by simp
qed

text \<open>
  Claim C7. The sources of a returned summary are built from the first ten flattened
  records only, one for each of them with a truthy url: there are no more sources than
  key findings, no more than ten key findings, and the cap of 15 removes nothing. A
  summary is returned whenever the snippets of the first ten flattened records are text
  (or absent).
\<close>

theorem sources_within_findings:
  "(\<forall>s. fst (summarize self bs w) = Inr s \<longrightarrow>
      sources s = map source_ref (filter has_url (take 10 (concat bs))) \<and>
      length (sources s) \<le> length (key_findings s) \<and> length (key_findings s) \<le> 10) \<and>
   (list_all snippet_ok (take 10 (concat bs)) \<longrightarrow> (\<exists>s. fst (summarize self bs w) = Inr s))"
proof (intro conjI allI impI)
  fix s
  assume r: "fst (summarize self bs w) = Inr s"
  note eq = summarize_Inr(2) [OF r]
  define xs where "xs = take 10 (concat bs)"
  have lx: "length xs \<le> 10" by (simp add: xs_def)
  have fl: "length (filter has_url xs) \<le> length xs" by (rule length_filter_le)
  from lx fl have "length (filter has_url xs) \<le> 15" by linarith
  then have src: "sources s = map source_ref (filter has_url xs)"
    by (subst eq) (simp add: xs_def)
  have kf: "key_findings s = map finding xs"
    by (subst eq) (simp add: xs_def)
  from src show "sources s = map source_ref (filter has_url (take 10 (concat bs)))"
    by (simp only: xs_def)
  from src kf fl show "length (sources s) \<le> length (key_findings s)" by simp
  from kf lx show "length (key_findings s) \<le> 10" by simp
next
  assume "list_all snippet_ok (take 10 (concat bs))"
  then show "\<exists>s. fst (summarize self bs w) = Inr s" by (rule summarize_returns)
qed

theorem sources_within_findings_witness:
  "list_all snippet_ok (take 10 (concat twelve_with_url)) \<and>
   (\<exists>s. fst (summarize (SummarizerAgent False) twelve_with_url w0) = Inr s \<and>
        length (sources s) = 10 \<and> length (key_findings s) = 10 \<and>
        sources s = map source_ref (take 10 (concat twelve_with_url)))"
proof -
  note th = sources_within_findings [of "SummarizerAgent False" twelve_with_url w0]
  from th twelve_with_url_ok obtain s where
    s: "fst (summarize (SummarizerAgent False) twelve_with_url w0) = Inr s" by blast
  with th have "sources s = map source_ref (filter has_url (take 10 (concat twelve_with_url)))"
    by blast
  then have a: "sources s = map source_ref (take 10 (concat twelve_with_url))"
    by (simp only: twelve_with_url_has_url)
  from th s have b: "length (sources s) \<le> length (key_findings s)" by blast
  from th s have c: "length (key_findings s) \<le> 10" by blast
  from a have d: "length (sources s) = 10" by (simp add: twelve_with_url_def)
  with b c have "length (key_findings s) = 10" by linarith
  with s a d twelve_with_url_ok show ?thesis by blast
qed

text \<open>
  Claim C9. A returned summary has exactly min(10, n) key findings, where n is the length
  of the flattened input, and the i-th finding is built from the i-th record of the
  flattened input (all of batch 0, then all of batch 1, and so on). A summary is returned
  whenever the snippets of the first ten flattened records are text (or absent); when the
  outer sequence is empty or every batch is empty, it is returned and has no findings.
\<close>

theorem key_findings_flattened:
  "(\<forall>s. fst (summarize self bs w) = Inr s \<longrightarrow>
      length (key_findings s) = min 10 (length (concat bs)) \<and>
      (\<forall>i<length (key_findings s). key_findings s ! i = finding (concat bs ! i))) \<and>
   (list_all snippet_ok (take 10 (concat bs)) \<longrightarrow> (\<exists>s. fst (summarize self bs w) = Inr s)) \<and>
   (concat bs = [] \<longrightarrow> (\<exists>s. fst (summarize self bs w) = Inr s \<and> key_findings s = []))"
proof (intro conjI allI impI)
  fix s
  assume r: "fst (summarize self bs w) = Inr s"
  note eq = summarize_Inr(2) [OF r]
  have kf: "key_findings s = map finding (take 10 (concat bs))" by (subst eq) simp
  show "length (key_findings s) = min 10 (length (concat bs))"
    by (simp add: kf min.commute)
  fix i assume "i < length (key_findings s)"
  then show "key_findings s ! i = finding (concat bs ! i)"
    by (simp add: kf)
next
  assume "list_all snippet_ok (take 10 (concat bs))"
  then show "\<exists>s. fst (summarize self bs w) = Inr s" by (rule summarize_returns)
next
  assume e: "concat bs = []"
  have "list_all snippet_ok (take 10 (concat bs))" by (simp only: e) simp
  from synthesize_information_ok [OF this] e
  show "\<exists>s. fst (summarize self bs w) = Inr s \<and> key_findings s = []"
    by (simp add: summarize_result)
qed

theorem key_findings_flattened_witness:
  "list_all snippet_ok (take 10 (concat twelve_records)) \<and>
   (\<exists>s. fst (summarize (SummarizerAgent True) twelve_records w0) = Inr s \<and>
        length (key_findings s) = 10 \<and>
        key_findings s ! 6 = finding (result_record ''T'' ''some text'' ''http://t'') \<and>
        key_findings s ! 7 = finding (result_record ''N'' ''other text'' '''')) \<and>
   concat [[], [] :: pydict list] = [] \<and>
   (\<exists>s. fst (summarize (SummarizerAgent True) [[], []] w0) = Inr s \<and> key_findings s = [])"
proof -
  note th = key_findings_flattened [of "SummarizerAgent True" twelve_records w0]
  from th twelve_records_ok obtain s where
    s: "fst (summarize (SummarizerAgent True) twelve_records w0) = Inr s" by blast
  with th have l: "length (key_findings s) = min 10 (length (concat twelve_records))"
    and n: "\<forall>i<length (key_findings s). key_findings s ! i = finding (concat twelve_records ! i)"
    by blast+
  from l have l10: "length (key_findings s) = 10" by (simp add: twelve_concat)
  from n l10 have "key_findings s ! 6 = finding (concat twelve_records ! 6)" by simp
  then have a: "key_findings s ! 6 = finding (result_record ''T'' ''some text'' ''http://t'')"
    by (simp add: twelve_concat nth_append)
  from n l10 have "key_findings s ! 7 = finding (concat twelve_records ! 7)" by simp
  then have b: "key_findings s ! 7 = finding (result_record ''N'' ''other text'' '''')"
    by (simp add: twelve_concat nth_append)
  have e: "concat [[], [] :: pydict list] = []" by simp
  with key_findings_flattened [of "SummarizerAgent True" "[[], []]" w0]
  have c: "\<exists>s. fst (summarize (SummarizerAgent True) [[], []] w0) = Inr s \<and> key_findings s = []"
    by blast
  from s l10 a b e c twelve_records_ok show ?thesis by blast
qed

section \<open>Properties of the search agent\<close>

text \<open>
  Claim C1, evaluated where it fails. With a knowledge graph attached and a provider that
  raises on the call, \<^verbatim>\<open>search\<close> returns the empty list, but the only events logged
  are \<^verbatim>\<open>search_started\<close> and \<^verbatim>\<open>search_completed\<close> (with \<^verbatim>\<open>success\<close> true): the
  exception is caught inside \<^verbatim>\<open>_execute_search\<close> and never reaches the handler that
  logs \<^verbatim>\<open>search_failed\<close>. With a provider that yields one record and then raises, the
  result is not empty: it holds that record, ranked 1, and again the events logged are
  \<^verbatim>\<open>search_started\<close> and \<^verbatim>\<open>search_completed\<close>.
\<close>

theorem provider_failure_logged_as_success:
  "search (SearchAgent True) failing_provider ''q'' None w0 =
     (Inr [],
      \<lparr>kg_log =
         [\<lparr>agent = ''SearchAgent'', action = ''search_started'', data = [''query'' \<mapsto> PyStr ''q'']\<rparr>,
          \<lparr>agent = ''SearchAgent'', action = ''search_completed'',
           data = [''query'' \<mapsto> PyStr ''q'', ''result_count'' \<mapsto> PyInt 0, ''success'' \<mapsto> PyBool True]\<rparr>],
       stdout = [''Search error: network unreachable''],
       ddgs_calls = [(''q'', 5)]\<rparr>) \<and>
   fst (search (SearchAgent True) breaking_provider ''q'' None w0) =
     Inr [normalised 0 (provider_record ''A'' ''a'' ''http://a'')] \<and>
   actions (snd (search (SearchAgent True) breaking_provider ''q'' None w0)) =
     [''search_started'', ''search_completed''] \<and>
   stdout (snd (search (SearchAgent True) breaking_provider ''q'' None w0)) =
     [''Search error: connection reset'']"
proof -
  have a: "search (SearchAgent True) failing_provider ''q'' None w0 =
     (Inr [],
      \<lparr>kg_log =
         [\<lparr>agent = ''SearchAgent'', action = ''search_started'', data = [''query'' \<mapsto> PyStr ''q'']\<rparr>,
          \<lparr>agent = ''SearchAgent'', action = ''search_completed'',
           data = [''query'' \<mapsto> PyStr ''q'', ''result_count'' \<mapsto> PyInt 0, ''success'' \<mapsto> PyBool True]\<rparr>],
       stdout = [''Search error: network unreachable''],
       ddgs_calls = [(''q'', 5)]\<rparr>)"
    by (simp add: search_def execute_search_def SearchAgent_def failing_provider_def
        w0_def log_action_def py_or_def Let_def)
  have b: "fst (search (SearchAgent True) breaking_provider ''q'' None w0) =
     Inr [normalised 0 (provider_record ''A'' ''a'' ''http://a'')]"
    by (simp add: search_fst provider_raised_def provider_yielded_def breaking_provider_def)
  have c: "actions (snd (search (SearchAgent True) breaking_provider ''q'' None w0)) =
     [''search_started'', ''search_completed'']"
    by (subst search_actions)
       (simp add: provider_raised_def breaking_provider_def SearchAgent_def actions_def w0_def)
  have d: "stdout (snd (search (SearchAgent True) breaking_provider ''q'' None w0)) =
     [''Search error: connection reset'']"
    by (simp add: search_snd provider_raised_def breaking_provider_def SearchAgent_def
        log_action_def w0_def Let_def)
  from a b c d show ?thesis by (intro conjI)
qed

text \<open>
  Claim C5. The ranks of the results a search call returns are 1, 2, ..., up to the
  number of results, in response order, with no gap. The call returns a list unless the
  provider raises something outside the \<^verbatim>\<open>Exception\<close> hierarchy.
\<close>

theorem search_ranks:
  "(\<forall>rs. fst (search self p q lim w) = Inr rs \<longrightarrow>
      ranks rs = map (\<lambda>i. Some (PyInt (int i))) [1..<Suc (length rs)]) \<and>
   (nothing_uncaught (provider_raised p q (py_or lim (max_results self))) \<longrightarrow>
      (\<exists>rs. fst (search self p q lim w) = Inr rs))"
proof (intro conjI allI impI)
  fix rs
  assume r: "fst (search self p q lim w) = Inr rs"
  define ys where "ys = provider_yielded p q (py_or lim (max_results self))"
  from search_Inr [OF r] have "rs = ranked 0 ys" by (simp only: ys_def)
  then show "ranks rs = map (\<lambda>i. Some (PyInt (int i))) [1..<Suc (length rs)]"
    using ranks_ranked [of 0 ys] by (simp add: length_ranked)
next
  assume "nothing_uncaught (provider_raised p q (py_or lim (max_results self)))"
  from search_returns [OF this] show "\<exists>rs. fst (search self p q lim w) = Inr rs"
    by blast
qed

theorem search_ranks_witness:
  "nothing_uncaught (provider_raised honouring_provider ''q'' (py_or (Some 4) (max_results (SearchAgent False)))) \<and>
   fst (search (SearchAgent False) honouring_provider ''q'' (Some 4) w0) =
     Inr (ranked 0 (take 4 seven_records)) \<and>
   ranks (ranked 0 (take 4 seven_records)) =
     [Some (PyInt 1), Some (PyInt 2), Some (PyInt 3), Some (PyInt 4)]"
proof -
  note th = search_ranks [of "SearchAgent False" honouring_provider "''q''" "Some 4" w0]
  have u: "nothing_uncaught (provider_raised honouring_provider ''q'' (py_or (Some 4) (max_results (SearchAgent False))))"
    by (simp add: provider_raised_def honouring_provider_def ending_iter_of)
  have r: "fst (search (SearchAgent False) honouring_provider ''q'' (Some 4) w0) =
      Inr (ranked 0 (take 4 seven_records))"
    using honouring_search [of 4 False "''q''" w0] by simp
  have l: "length (ranked 0 (take 4 seven_records)) = 4"
    by (simp add: length_ranked seven_records_def)
  from th r have "ranks (ranked 0 (take 4 seven_records)) =
      map (\<lambda>i. Some (PyInt (int i))) [1..<Suc (length (ranked 0 (take 4 seven_records)))]"
    by blast
  then have "ranks (ranked 0 (take 4 seven_records)) =
      [Some (PyInt 1), Some (PyInt 2), Some (PyInt 3), Some (PyInt 4)]"
    by (simp add: l upt_rec)
  with u r show ?thesis by blast
qed

text \<open>
  Claim C3, evaluated where it fails. The call is \<^verbatim>\<open>search('q', max_results=3)\<close> and
  the provider's iterator yields seven records. The limit reaches the provider (the call
  made is \<^verbatim>\<open>text('q', max_results=3)\<close>), but the loop of \<^verbatim>\<open>_execute_search\<close>
  consumes the whole iterator: seven results are returned, ranked 1 to 7, where the
  docstring of \<^verbatim>\<open>search\<close> calls \<^verbatim>\<open>max_results\<close> the maximum number of results to
  return.
\<close>

theorem over_yielding_provider_exceeds_limit:
  "fst (search (SearchAgent False) over_yielding_provider ''q'' (Some 3) w0) =
     Inr (ranked 0 seven_records) \<and>
   length (ranked 0 seven_records) = 7 \<and>
   ranks (ranked 0 seven_records) =
     [Some (PyInt 1), Some (PyInt 2), Some (PyInt 3), Some (PyInt 4), Some (PyInt 5),
      Some (PyInt 6), Some (PyInt 7)] \<and>
   ddgs_calls (snd (search (SearchAgent False) over_yielding_provider ''q'' (Some 3) w0)) =
     [(''q'', 3)]"
proof -
  have l: "length (ranked 0 seven_records) = 7"
    by (simp add: length_ranked seven_records_def)
  have "ranks (ranked 0 seven_records) = map (\<lambda>i. Some (PyInt (int i))) [Suc 0..<Suc 0 + 7]"
    using ranks_ranked [of 0 seven_records] by (simp add: seven_records_def)
  then have r: "ranks (ranked 0 seven_records) =
     [Some (PyInt 1), Some (PyInt 2), Some (PyInt 3), Some (PyInt 4), Some (PyInt 5),
      Some (PyInt 6), Some (PyInt 7)]"
    by (simp add: upt_rec)
  have c: "ddgs_calls (snd (search (SearchAgent False) over_yielding_provider ''q'' (Some 3) w0)) =
      [(''q'', 3)]"
    by (simp add: search_ddgs_calls over_yielding_provider_def py_or_def w0_def)
  from over_yielding_search [of 3 False "''q''" w0] l r c show ?thesis by simp
qed

text \<open>
  Claim C4 as stated fails at 0: \<^verbatim>\<open>max_results or self.max_results\<close> replaces a
  caller's 0 by the configured value, so the provider is called with 5.
\<close>

theorem zero_limit_counterexample:
  "ddgs_calls (snd (search (SearchAgent False) over_yielding_provider ''q'' (Some 0) w0)) = [(''q'', 5)]"
  by (simp add: search_ddgs_calls over_yielding_provider_def py_or_def w0_def SearchAgent_def)

text \<open>
  Claim C4, amended. The limit passed to the provider is the per-instance configured
  value (5 for a fresh agent) when the caller omits \<^verbatim>\<open>max_results\<close> or supplies 0; any
  other value the caller supplies, a negative one included, is passed through unchanged.
\<close>

theorem search_limit_passed:
  "ddgs_enter p = None \<Longrightarrow>
     ddgs_calls (snd (search self p q None w)) = ddgs_calls w @ [(q, max_results self)] \<and>
     ddgs_calls (snd (search self p q (Some 0) w)) = ddgs_calls w @ [(q, max_results self)] \<and>
     (n \<noteq> 0 \<longrightarrow> ddgs_calls (snd (search self p q (Some n) w)) = ddgs_calls w @ [(q, n)]) \<and>
     max_results (SearchAgent kg) = 5"
  by (simp add: search_ddgs_calls py_or_def SearchAgent_def)

theorem search_limit_passed_witness:
  "ddgs_enter over_yielding_provider = None \<and>
   ddgs_calls (snd (search (SearchAgent True) over_yielding_provider ''q'' None w0)) = [(''q'', 5)] \<and>
   ddgs_calls (snd (search (SearchAgent True) over_yielding_provider ''q'' (Some 0) w0)) = [(''q'', 5)] \<and>
   ddgs_calls (snd (search (SearchAgent True) over_yielding_provider ''q'' (Some (- 2)) w0)) = [(''q'', - 2)]"
proof -
  have e: "ddgs_enter over_yielding_provider = None"
    by (simp add: over_yielding_provider_def)
  have m: "max_results (SearchAgent True) = 5" and z: "ddgs_calls w0 = []"
    by (simp_all add: SearchAgent_def w0_def)
  note th = search_limit_passed [OF e, of "SearchAgent True" "''q''" w0 "- 2" True]
  from th have a: "ddgs_calls (snd (search (SearchAgent True) over_yielding_provider ''q'' None w0)) = [(''q'', 5)]"
    by (simp only: m z append_Nil)
  from th have b: "ddgs_calls (snd (search (SearchAgent True) over_yielding_provider ''q'' (Some 0) w0)) = [(''q'', 5)]"
    by (simp only: m z append_Nil)
  have "(- 2 :: int) \<noteq> 0" by simp
  with th have "ddgs_calls (snd (search (SearchAgent True) over_yielding_provider ''q'' (Some (- 2)) w0)) =
      ddgs_calls w0 @ [(''q'', - 2)]"
    by blast
  then have c: "ddgs_calls (snd (search (SearchAgent True) over_yielding_provider ''q'' (Some (- 2)) w0)) = [(''q'', - 2)]"
    by (simp only: z append_Nil)
  from e a b c show ?thesis by blast
qed

text \<open>
  Claim C10. In each returned result, \<^verbatim>\<open>title\<close>, \<^verbatim>\<open>snippet\<close> and \<^verbatim>\<open>url\<close> are the
  values the provider's record holds under \<^verbatim>\<open>title\<close>, \<^verbatim>\<open>body\<close> and \<^verbatim>\<open>href\<close>
  whenever the key is present, whatever the value (an empty string and \<^verbatim>\<open>None\<close>
  included); the placeholders \<^verbatim>\<open>No title\<close>, \<^verbatim>\<open>No description\<close> and the empty string
  appear only for a key that is absent.
\<close>

theorem search_placeholders:
  "fst (search self p q lim w) = Inr rs \<Longrightarrow> i < length rs \<Longrightarrow>
   (rs ! i) ''title'' =
      Some (case (provider_yielded p q (py_or lim (max_results self)) ! i) ''title'' of
              None \<Rightarrow> PyStr ''No title'' | Some v \<Rightarrow> v) \<and>
   (rs ! i) ''snippet'' =
      Some (case (provider_yielded p q (py_or lim (max_results self)) ! i) ''body'' of
              None \<Rightarrow> PyStr ''No description'' | Some v \<Rightarrow> v) \<and>
   (rs ! i) ''url'' =
      Some (case (provider_yielded p q (py_or lim (max_results self)) ! i) ''href'' of
              None \<Rightarrow> PyStr '''' | Some v \<Rightarrow> v)"
proof -
  assume r: "fst (search self p q lim w) = Inr rs" and i: "i < length rs"
  define ys where "ys = provider_yielded p q (py_or lim (max_results self))"
  from search_Inr [OF r] have rs: "rs = ranked 0 ys" by (simp add: ys_def)
  with i have "i < length ys" by (simp add: length_ranked)
  then have "rs ! i = normalised i (ys ! i)" by (simp add: rs nth_ranked)
  then show ?thesis
    unfolding ys_def [symmetric] by (simp add: normalised_def dict_get_def)
qed

theorem search_placeholders_witness:
  "fst (search (SearchAgent False) sparse_provider ''q'' None w0) = Inr (ranked 0 [sparse_record]) \<and>
   sparse_record ''title'' = Some (PyStr '''') \<and>
   sparse_record ''body'' = Some PyNone \<and>
   sparse_record ''href'' = None \<and>
   (ranked 0 [sparse_record] ! 0) ''title'' = Some (PyStr '''') \<and>
   (ranked 0 [sparse_record] ! 0) ''snippet'' = Some PyNone \<and>
   (ranked 0 [sparse_record] ! 0) ''url'' = Some (PyStr '''')"
proof -
  have y: "provider_yielded sparse_provider ''q'' (py_or None (max_results (SearchAgent False))) =
      [sparse_record]"
    by (simp add: provider_yielded_def sparse_provider_def)
  have "provider_raised sparse_provider ''q'' (py_or None (max_results (SearchAgent False))) = None"
    by (simp add: provider_raised_def sparse_provider_def)
  then have r: "fst (search (SearchAgent False) sparse_provider ''q'' None w0) =
      Inr (ranked 0 [sparse_record])"
    by (simp add: search_fst y)
  have i: "0 < length (ranked 0 [sparse_record])"
    by simp
  have t: "sparse_record ''title'' = Some (PyStr '''')" and b: "sparse_record ''body'' = Some PyNone"
    and h: "sparse_record ''href'' = None"
    by (simp_all add: sparse_record_def)
  from search_placeholders [OF r i] have
    "(ranked 0 [sparse_record] ! 0) ''title'' = Some (PyStr '''') \<and>
     (ranked 0 [sparse_record] ! 0) ''snippet'' = Some PyNone \<and>
     (ranked 0 [sparse_record] ! 0) ''url'' = Some (PyStr '''')"
    unfolding y by (simp add: t b h)
  with r t b h show ?thesis by blast
qed

end
